theory Spec2Isabelle
  imports Complex_Main
begin

section \<open>HealthChecker (web/src/services/HealthChecker.ts)\<close>

text \<open>
  Clock readings (\<^verbatim>\<open>Date.now()\<close>) are integers in milliseconds and are passed in
  as arguments, one per call of \<^verbatim>\<open>Date.now()\<close> in the source.  The
  outcome of \<^verbatim>\<open>fetch\<close> and of \<^verbatim>\<open>response.json()\<close> is an argument as well:
  the network is the environment of the function.
\<close>

text \<open>The fields of the parsed response body that the source reads; \<open>None\<close> is
  \<^verbatim>\<open>undefined\<close>.\<close>

record health_data =
  d_status :: "string option"
  d_timestamp :: "int option"
  d_uptime :: "rat option"
  d_port :: "nat option"
  d_version :: "string option"
  d_error :: "string option"

text \<open>The error string of a result: \<open>HttpStatus s t\<close> stands for the text
  \<^verbatim>\<open>HTTP s: t\<close>, \<open>Message e\<close> for the text \<open>e\<close>.\<close>

datatype health_error = HttpStatus nat string | Message string

record HealthCheckResult =
  healthy :: bool
  timestamp :: int
  uptime :: "rat option"
  port :: "nat option"
  version :: "string option"
  details :: "health_data option"
  error :: "health_error option"

record HealthCheckConfig =
  timeout :: int
  interval :: int
  maxRetries :: int
  retryInterval :: int

definition DEFAULT_CONFIG :: HealthCheckConfig where
  "DEFAULT_CONFIG = \<lparr>timeout = 5000, interval = 1000, maxRetries = 30, retryInterval = 1000\<rparr>"

record cache_entry =
  result :: HealthCheckResult
  expiry :: int

text \<open>The cache key is \<^verbatim>\<open>health_${port}\<close>, one key per port: the map is keyed by
  the port.\<close>

record HealthChecker =
  config :: HealthCheckConfig
  checkCache :: "nat \<rightharpoonup> cache_entry"

definition CACHE_TTL :: int where
  "CACHE_TTL = 2000"

definition new_HealthChecker :: HealthChecker where
  "new_HealthChecker = \<lparr>config = DEFAULT_CONFIG, checkCache = Map.empty\<rparr>"

text \<open>What \<^verbatim>\<open>response.json()\<close> does: it rejects (malformed body), or yields
  \<^verbatim>\<open>null\<close> (reading \<^verbatim>\<open>data.status\<close> then throws a TypeError), or yields an
  object.\<close>

datatype body_outcome = JsonRejects string | JsonNull | JsonData health_data

text \<open>What \<^verbatim>\<open>fetch\<close> does: it rejects (transport error, or the abort fired by
  the timeout timer), or resolves to a response with \<^verbatim>\<open>ok\<close>, \<^verbatim>\<open>status\<close>,
  \<^verbatim>\<open>statusText\<close> and a body.\<close>

datatype fetch_outcome = FetchRejects string | Response bool nat string body_outcome

text \<open>JavaScript's \<^verbatim>\<open>a || b\<close> on an optional number: \<^verbatim>\<open>undefined\<close> and \<open>0\<close>
  are falsy.\<close>

definition or_else_int :: "int option \<Rightarrow> int \<Rightarrow> int" where
  "or_else_int a b = (case a of None \<Rightarrow> b | Some x \<Rightarrow> if x = 0 then b else x)"

definition or_else_nat :: "nat option \<Rightarrow> nat \<Rightarrow> nat" where
  "or_else_nat a b = (case a of None \<Rightarrow> b | Some x \<Rightarrow> if x = 0 then b else x)"

text \<open>The body of the \<^verbatim>\<open>try\<close> block of \<^verbatim>\<open>getHealthStatus\<close> up to the value of
  \<^verbatim>\<open>result\<close>; \<open>Inl\<close> is an exception thrown inside the block.\<close>

definition probe_result :: "nat \<Rightarrow> int \<Rightarrow> fetch_outcome \<Rightarrow> string + HealthCheckResult" where
  "probe_result p t_result out =
     (case out of
        FetchRejects e \<Rightarrow> Inl e
      | Response ok st txt body \<Rightarrow>
          if ok then
            (case body of
               JsonRejects e \<Rightarrow> Inl e
             | JsonNull \<Rightarrow> Inl ''TypeError''
             | JsonData d \<Rightarrow>
                 Inr \<lparr>healthy = (d_status d = Some ''healthy''),
                      timestamp = or_else_int (d_timestamp d) t_result,
                      uptime = d_uptime d,
                      port = Some (or_else_nat (d_port d) p),
                      version = d_version d,
                      details = Some d,
                      error = (if d_status d \<noteq> Some ''healthy''
                               then map_option Message (d_error d) else None)\<rparr>)
          else
            Inr \<lparr>healthy = False, timestamp = t_result, uptime = None, port = Some p,
                 version = None, details = None, error = Some (HttpStatus st txt)\<rparr>)"

definition cache_fresh :: "HealthChecker \<Rightarrow> nat \<Rightarrow> int \<Rightarrow> bool" where
  "cache_fresh hc p t_check =
     (case checkCache hc p of None \<Rightarrow> False | Some c \<Rightarrow> t_check < expiry c)"

definition cache_set :: "nat \<Rightarrow> HealthCheckResult \<Rightarrow> int \<Rightarrow> HealthChecker \<Rightarrow> HealthChecker" where
  "cache_set p r e hc = hc\<lparr>checkCache := (checkCache hc)(p \<mapsto> \<lparr>result = r, expiry = e\<rparr>)\<rparr>"

definition thrown_result :: "nat \<Rightarrow> int \<Rightarrow> string \<Rightarrow> HealthCheckResult" where
  "thrown_result p t_result e =
     \<lparr>healthy = False, timestamp = t_result, uptime = None, port = Some p,
      version = None, details = None, error = Some (Message e)\<rparr>"

text \<open>\<^verbatim>\<open>getHealthStatus(port)\<close>.  \<open>t_check\<close> is the clock at the cache check,
  \<open>t_result\<close> the clock when the result is built, \<open>t_store\<close> the clock when the
  cache entry is written.  The function is \<^verbatim>\<open>async\<close>; \<open>Inl\<close> would be a
  rejection of the promise it returns.\<close>

definition getHealthStatus ::
  "nat \<Rightarrow> int \<Rightarrow> int \<Rightarrow> int \<Rightarrow> fetch_outcome \<Rightarrow> HealthChecker
     \<Rightarrow> (string + HealthCheckResult) \<times> HealthChecker" where
  "getHealthStatus p t_check t_result t_store out hc =
     (case (if cache_fresh hc p t_check then checkCache hc p else None) of
        Some cached \<Rightarrow> (Inr (result cached), hc)
      | None \<Rightarrow>
          (case probe_result p t_result out of
             Inr r \<Rightarrow> (Inr r, cache_set p r (t_store + CACHE_TTL) hc)
           | Inl e \<Rightarrow>
               (Inr (thrown_result p t_result e),
                cache_set p (thrown_result p t_result e) (t_store + 500) hc)))"

text \<open>\<^verbatim>\<open>checkServiceHealth(port)\<close>: the \<^verbatim>\<open>try\<close>/\<^verbatim>\<open>catch\<close> around
  \<^verbatim>\<open>getHealthStatus\<close>.\<close>

definition checkServiceHealth ::
  "nat \<Rightarrow> int \<Rightarrow> int \<Rightarrow> int \<Rightarrow> fetch_outcome \<Rightarrow> HealthChecker
     \<Rightarrow> (string + bool) \<times> HealthChecker" where
  "checkServiceHealth p t_check t_result t_store out hc =
     (case getHealthStatus p t_check t_result t_store out hc of
        (Inr r, hc') \<Rightarrow> (Inr (healthy r), hc')
      | (Inl e, hc') \<Rightarrow> (Inr False, hc'))"



text \<open>The probe outcomes in which the network call or the parsing of its body fails.\<close>

definition probe_throws :: "fetch_outcome \<Rightarrow> bool" where
  "probe_throws out =
     (case out of
        FetchRejects e \<Rightarrow> True
      | Response ok st txt body \<Rightarrow>
          ok \<and> (case body of JsonRejects e \<Rightarrow> True | JsonNull \<Rightarrow> True | JsonData d \<Rightarrow> False))"

definition non_success_status :: "fetch_outcome \<Rightarrow> bool" where
  "non_success_status out =
     (case out of FetchRejects e \<Rightarrow> False | Response ok st txt body \<Rightarrow> \<not> ok)"

section \<open>RestartStateMachine (web/src/services/RestartStateMachine.ts)\<close>

datatype RestartState =
  IDLE | INITIATING | RESTARTING | RECONNECTING_R | VERIFYING | COMPLETED | FAILED_R

text \<open>The errors the state machine throws, in place of their message texts:
  \<open>RestartInProgress s\<close> is "restart already in progress, current state: s",
  \<open>ContextNotInitialized\<close> is "context not initialised",
  \<open>NoVerificationResponse\<close> is "no verification response received from the server",
  \<open>HealthOrRestartCheckFailed\<close> is "service health check failed or service not restarted",
  \<open>VerificationFailed e\<close> is "service verification failed: " followed by the message
  of \<open>e\<close>, and \<open>External e\<close> is an error of the connection manager or health checker
  with message \<open>e\<close>.\<close>

datatype restart_error =
    RestartInProgress RestartState
  | ContextNotInitialized
  | NoVerificationResponse
  | HealthOrRestartCheckFailed
  | VerificationFailed restart_error
  | External string

record RestartContext =
  currentPort :: nat
  targetPort :: "nat option"
  startTime :: int
  attempts :: nat
  maxAttempts :: nat
  timeout_ctx :: int
  error_ctx :: "restart_error option"
  restartId :: "string option"

text \<open>The phase handlers that \<^verbatim>\<open>doTransition\<close> dispatches to.\<close>

datatype handler =
  HandleInitiating | HandleRestarting | HandleReconnecting | HandleVerifying
  | HandleCompleted | HandleFailed

text \<open>The local-storage item \<^verbatim>\<open>restart-state-machine\<close>: text that
  \<^verbatim>\<open>JSON.parse\<close> rejects or that has no \<^verbatim>\<open>context\<close> object (reading
  \<^verbatim>\<open>context.startTime\<close> throws), or a saved state with its context.\<close>

datatype persisted = Unparsable | Saved RestartState RestartContext

text \<open>
  The machine with the two local-storage items it reads and writes.
  \<open>transitionPromise\<close> is \<open>Some s\<close> while the promise of \<^verbatim>\<open>doTransition(s)\<close> is
  stored in the field and \<open>None\<close> when the field is \<^verbatim>\<open>null\<close>.  The effects on
  the environment are logged: \<open>notified\<close> holds the arguments of each round of listener
  calls, \<open>entered\<close> the phase handlers invoked, \<open>awaiting\<close> the calls of
  \<^verbatim>\<open>transition\<close> suspended on the stored promise, \<open>reset_timers\<close> the delays of
  the scheduled resets.  \<open>ws_url_port\<close> is the item \<^verbatim>\<open>xiaozhi-ws-url\<close>, where
  \<open>Some q\<close> stands for the text \<^verbatim>\<open>ws://localhost:q\<close>.
\<close>

record RestartStateMachine =
  state :: RestartState
  context_m :: "RestartContext option"
  transitionPromise :: "RestartState option"
  storage :: "persisted option"
  ws_url_port :: "nat option"
  notified :: "(RestartState \<times> RestartContext) list"
  entered :: "handler list"
  awaiting :: "RestartState list"
  reset_timers :: "nat list"

definition new_RestartStateMachine :: "persisted option \<Rightarrow> RestartStateMachine" where
  "new_RestartStateMachine st =
     \<lparr>state = IDLE, context_m = None, transitionPromise = None, storage = st,
      ws_url_port = None, notified = [], entered = [], awaiting = [], reset_timers = []\<rparr>"

definition notifyListeners :: "RestartStateMachine \<Rightarrow> RestartStateMachine" where
  "notifyListeners m =
     (case context_m m of
        None \<Rightarrow> m
      | Some c \<Rightarrow> m\<lparr>notified := notified m @ [(state m, c)]\<rparr>)"

definition persistState :: "RestartStateMachine \<Rightarrow> RestartStateMachine" where
  "persistState m =
     (case context_m m of
        None \<Rightarrow> m
      | Some c \<Rightarrow> m\<lparr>storage := Some (Saved (state m) c)\<rparr>)"

definition clearPersistedState :: "RestartStateMachine \<Rightarrow> RestartStateMachine" where
  "clearPersistedState m = m\<lparr>storage := None\<rparr>"

definition reset :: "RestartStateMachine \<Rightarrow> RestartStateMachine" where
  "reset m = clearPersistedState (m\<lparr>state := IDLE, context_m := None, transitionPromise := None\<rparr>)"

text \<open>The \<^verbatim>\<open>switch\<close> of \<^verbatim>\<open>doTransition\<close>.\<close>

fun phase_handler :: "RestartState \<Rightarrow> handler option" where
  "phase_handler INITIATING = Some HandleInitiating"
| "phase_handler RESTARTING = Some HandleRestarting"
| "phase_handler RECONNECTING_R = Some HandleReconnecting"
| "phase_handler VERIFYING = Some HandleVerifying"
| "phase_handler COMPLETED = Some HandleCompleted"
| "phase_handler FAILED_R = Some HandleFailed"
| "phase_handler IDLE = None"

text \<open>\<^verbatim>\<open>doTransition(newState)\<close> from its start to the call of the phase handler:
  the part that runs before the caller gets the promise back.\<close>

definition doTransition_begin :: "RestartState \<Rightarrow> RestartStateMachine \<Rightarrow> RestartStateMachine" where
  "doTransition_begin newState m =
     (let m1 = persistState (notifyListeners (m\<lparr>state := newState\<rparr>))
      in m1\<lparr>entered := entered m1 @
               (case phase_handler newState of None \<Rightarrow> [] | Some h \<Rightarrow> [h])\<rparr>)"

text \<open>The \<^verbatim>\<open>catch\<close> block of \<^verbatim>\<open>doTransition(newState)\<close>, run when the phase
  handler has thrown \<open>e\<close>.\<close>

definition doTransition_catch ::
  "RestartState \<Rightarrow> restart_error \<Rightarrow> RestartStateMachine \<Rightarrow> RestartStateMachine" where
  "doTransition_catch newState e m =
     (let m1 = (case context_m m of
                  None \<Rightarrow> m
                | Some c \<Rightarrow> m\<lparr>context_m := Some (c\<lparr>error_ctx := Some e\<rparr>)\<rparr>)
      in if newState \<noteq> FAILED_R then
           (let m2 = persistState (notifyListeners (m1\<lparr>state := FAILED_R\<rparr>))
            in m2\<lparr>reset_timers := reset_timers m2 @ [3000]\<rparr>)
         else m1)"

text \<open>\<^verbatim>\<open>transition(newState)\<close> up to its first suspension: with a stored promise
  the call waits for it; without one it runs \<^verbatim>\<open>doTransition\<close> and stores its
  promise.\<close>

definition transition :: "RestartState \<Rightarrow> RestartStateMachine \<Rightarrow> RestartStateMachine" where
  "transition newState m =
     (if transitionPromise m \<noteq> None then m\<lparr>awaiting := awaiting m @ [newState]\<rparr>
      else (doTransition_begin newState m)\<lparr>transitionPromise := Some newState\<rparr>)"

text \<open>\<^verbatim>\<open>restart(currentPort, targetPort)\<close>; \<open>now\<close> is the clock and \<open>rid\<close> the
  text made by \<^verbatim>\<open>generateRestartId\<close>.  \<open>Inl e\<close>: the returned promise is rejected
  with \<open>e\<close> at once; \<open>Inr ()\<close>: the restart has started.\<close>

definition restart ::
  "nat \<Rightarrow> nat option \<Rightarrow> int \<Rightarrow> string \<Rightarrow> RestartStateMachine
     \<Rightarrow> (restart_error + unit) \<times> RestartStateMachine" where
  "restart cur tgt now rid m =
     (if state m \<noteq> IDLE then (Inl (RestartInProgress (state m)), m)
      else
        (let m1 = m\<lparr>context_m := Some \<lparr>currentPort = cur, targetPort = tgt, startTime = now,
                       attempts = 0, maxAttempts = 30, timeout_ctx = 60000,
                       error_ctx = None, restartId = Some rid\<rparr>\<rparr>
         in (Inr (), transition INITIATING (persistState m1))))"


text \<open>An inbound message as far as the source reads it: its \<^verbatim>\<open>type\<close>, a
  top-level field \<^verbatim>\<open>restarted\<close>, and the fields \<^verbatim>\<open>restarted\<close> and
  \<^verbatim>\<open>healthy\<close> of its \<^verbatim>\<open>data\<close> object; \<open>None\<close> is \<^verbatim>\<open>undefined\<close>.\<close>

record payload =
  restarted :: "bool option"
  healthy_p :: "bool option"

record message =
  type_m :: "string option"
  restarted_m :: "bool option"
  data_m :: "payload option"

text \<open>The truth value of \<^verbatim>\<open>response.data?.restarted\<close>.\<close>

definition data_restarted :: "message \<Rightarrow> bool" where
  "data_restarted response =
     (case data_m response of None \<Rightarrow> False | Some d \<Rightarrow> restarted d = Some True)"

text \<open>
  \<^verbatim>\<open>handleVerifying()\<close>.  \<open>waited\<close> is how the promise of
  \<^verbatim>\<open>waitForMessage("restartVerificationResponse", 10000)\<close> settles (\<open>Inl\<close>: rejected;
  \<open>Inr None\<close>: resolved with a falsy value), \<open>health\<close> how
  \<^verbatim>\<open>checkServiceHealth(targetPort)\<close> settles.  \<open>Inl e\<close>: the handler throws \<open>e\<close>.
\<close>

definition handleVerifying ::
  "(restart_error + message option) \<Rightarrow> (restart_error + bool) \<Rightarrow> RestartStateMachine
     \<Rightarrow> restart_error + RestartStateMachine" where
  "handleVerifying waited health m =
     (case context_m m of
        None \<Rightarrow> Inl ContextNotInitialized
      | Some c \<Rightarrow>
          (case waited of
             Inl e \<Rightarrow> Inl (VerificationFailed e)
           | Inr None \<Rightarrow> Inl (VerificationFailed NoVerificationResponse)
           | Inr (Some response) \<Rightarrow>
               (case health of
                  Inl e \<Rightarrow> Inl (VerificationFailed e)
                | Inr isHealthy \<Rightarrow>
                    if isHealthy \<and> data_restarted response then
                      Inr (transition COMPLETED
                        (if or_else_nat (targetPort c) 0 \<noteq> 0 \<and>
                            targetPort c \<noteq> Some (currentPort c)
                         then m\<lparr>ws_url_port := targetPort c\<rparr> else m))
                    else Inl (VerificationFailed HealthOrRestartCheckFailed))))"

text \<open>Both confirmations as the source tests them: a response was received, its
  \<^verbatim>\<open>data.restarted\<close> is truthy, and the health check returned true.\<close>

definition verification_confirmed ::
  "(restart_error + message option) \<Rightarrow> (restart_error + bool) \<Rightarrow> bool" where
  "verification_confirmed waited health =
     (case waited of
        Inr (Some response) \<Rightarrow> data_restarted response \<and> health = Inr True
      | _ \<Rightarrow> False)"

text \<open>Concrete values: the context of the repository's persistence test, a machine in
  its Verifying phase, the response as \<^verbatim>\<open>WebServer.ts\<close> sends it (fields under
  \<^verbatim>\<open>data\<close>), and a response with \<^verbatim>\<open>restarted\<close> at top level.\<close>

definition example_context :: RestartContext where
  "example_context = \<lparr>currentPort = 9999, targetPort = None, startTime = 1000,
     attempts = 2, maxAttempts = 30, timeout_ctx = 60000,
     error_ctx = None, restartId = Some ''test-restart-id''\<rparr>"

definition verifying_machine :: RestartStateMachine where
  "verifying_machine =
     (new_RestartStateMachine (Some (Saved VERIFYING example_context)))
       \<lparr>state := VERIFYING, context_m := Some example_context,
        transitionPromise := Some VERIFYING\<rparr>"

definition server_response :: message where
  "server_response =
     \<lparr>type_m = Some ''restartVerificationResponse'', restarted_m = None,
      data_m = Some \<lparr>restarted = Some True, healthy_p = Some True\<rparr>\<rparr>"

definition top_level_response :: message where
  "top_level_response =
     \<lparr>type_m = Some ''restartVerificationResponse'', restarted_m = Some True,
      data_m = None\<rparr>"

section \<open>ConnectionManager (web/src/services/ConnectionManager.ts)\<close>

datatype ConnectionState = DISCONNECTED | CONNECTING | CONNECTED | RECONNECTING | FAILED

record ConnectionConfig =
  connectTimeout :: int
  messageTimeout :: int
  reconnectInterval :: int
  maxReconnectAttempts :: int

definition DEFAULT_CONNECTION_CONFIG :: ConnectionConfig where
  "DEFAULT_CONNECTION_CONFIG =
     \<lparr>connectTimeout = 5000, messageTimeout = 10000, reconnectInterval = 2000,
      maxReconnectAttempts = 5\<rparr>"

text \<open>The \<^verbatim>\<open>readyState\<close> of a browser socket.\<close>

datatype ready_state = WS_CONNECTING | WS_OPEN | WS_CLOSING | WS_CLOSED

text \<open>The errors the manager rejects with, in place of their message texts:
  connect timed out, connect failed (socket error), creating the socket failed, the
  connection was closed (\<^verbatim>\<open>disconnect\<close>), waiting for a message of a type timed out.\<close>

datatype conn_error =
    ConnectTimedOut | ConnectFailed | CreateFailed | ConnectionClosed
  | MessageTimedOut string

text \<open>
  A message handler is a function object.  \<open>OneShot mid ty\<close> is the closure that
  \<^verbatim>\<open>waitForMessage\<close> builds for message id \<open>mid\<close> and type \<open>ty\<close>;
  \<open>Persistent k\<close> is a callback of the caller, which is taken not to call back into
  the manager.
\<close>

datatype msg_handler = OneShot string string | Persistent nat

text \<open>The callbacks given to \<^verbatim>\<open>setTimeout\<close>: the connect timeout of the connect call
  with promise \<open>k\<close>, the timeout of \<^verbatim>\<open>waitForMessage\<close> for a message id and type,
  and the delayed reconnect of \<^verbatim>\<open>handleUnexpectedDisconnect\<close>.\<close>

datatype timer_action = ConnectTimeout nat | MessageTimeout string string | ReconnectTick

text \<open>A socket made by \<^verbatim>\<open>connect\<close>: its ready state, and what its callbacks
  captured, the connect-timeout handle and the promise of the connect call.\<close>

record sock_info =
  readyState :: ready_state
  timeout_handle :: nat
  promise_id :: nat

text \<open>
  The fields of the class, followed by the environment they refer to: the sockets
  created (by handle), the armed timers with their callbacks (a timer leaves the list
  when it fires or is cleared), the counters that give fresh handles, the promises of
  \<^verbatim>\<open>connect\<close> that the reconnect callback awaits, and the log of every call of a
  promise's \<^verbatim>\<open>resolve\<close> or \<^verbatim>\<open>reject\<close>: \<open>connect_settled\<close> for the promises
  of \<^verbatim>\<open>connect\<close>, \<open>settled\<close> for those of \<^verbatim>\<open>waitForMessage\<close> (named by
  message id).  \<open>pendingMessages\<close> maps a message id to the timer handle of its
  entry; \<^verbatim>\<open>Map\<close> and \<^verbatim>\<open>Set\<close> keep insertion order, so they are lists.
\<close>

record ConnectionManager =
  currentConnection :: "nat option"
  connectionState :: ConnectionState
  messageHandlers :: "(string \<times> msg_handler list) list"
  pendingMessages :: "(string \<times> nat) list"
  config_cm :: ConnectionConfig
  currentPort_cm :: "nat option"
  reconnectAttempts :: int
  reconnectTimer :: "nat option"
  sockets :: "nat \<rightharpoonup> sock_info"
  next_sock :: nat
  armed :: "(nat \<times> timer_action) list"
  next_timer :: nat
  next_promise :: nat
  reconnect_awaits :: "nat list"
  connect_settled :: "(nat \<times> (conn_error + nat)) list"
  settled :: "(string \<times> (conn_error + message)) list"

definition new_ConnectionManager :: "ConnectionConfig \<Rightarrow> ConnectionManager" where
  "new_ConnectionManager cfg =
     \<lparr>currentConnection = None, connectionState = DISCONNECTED, messageHandlers = [],
      pendingMessages = [], config_cm = cfg, currentPort_cm = None, reconnectAttempts = 0,
      reconnectTimer = None, sockets = Map.empty, next_sock = 0, armed = [], next_timer = 0,
      next_promise = 0, reconnect_awaits = [], connect_settled = [], settled = []\<rparr>"

definition ready_state_of :: "ConnectionManager \<Rightarrow> nat \<Rightarrow> ready_state" where
  "ready_state_of c s = (case sockets c s of None \<Rightarrow> WS_CLOSED | Some i \<Rightarrow> readyState i)"

definition isConnected :: "ConnectionManager \<Rightarrow> bool" where
  "isConnected c =
     (connectionState c = CONNECTED \<and>
      (case currentConnection c of None \<Rightarrow> False | Some s \<Rightarrow> ready_state_of c s = WS_OPEN))"

subsection \<open>Timers and promises\<close>

definition setTimeout :: "timer_action \<Rightarrow> ConnectionManager \<Rightarrow> nat \<times> ConnectionManager" where
  "setTimeout a c =
     (next_timer c, c\<lparr>armed := armed c @ [(next_timer c, a)], next_timer := Suc (next_timer c)\<rparr>)"

definition clearTimeout :: "nat \<Rightarrow> ConnectionManager \<Rightarrow> ConnectionManager" where
  "clearTimeout h c = c\<lparr>armed := filter (\<lambda>t. fst t \<noteq> h) (armed c)\<rparr>"

definition settle_msg ::
  "string \<Rightarrow> (conn_error + message) \<Rightarrow> ConnectionManager \<Rightarrow> ConnectionManager" where
  "settle_msg mid v c = c\<lparr>settled := settled c @ [(mid, v)]\<rparr>"

text \<open>\<^verbatim>\<open>ws.close()\<close>: a socket that is connecting or open starts closing; the close
  event comes later.\<close>

definition ws_close :: "nat \<Rightarrow> ConnectionManager \<Rightarrow> ConnectionManager" where
  "ws_close s c =
     (case sockets c s of
        None \<Rightarrow> c
      | Some i \<Rightarrow>
          if readyState i = WS_CONNECTING \<or> readyState i = WS_OPEN
          then c\<lparr>sockets := (sockets c)(s \<mapsto> i\<lparr>readyState := WS_CLOSING\<rparr>)\<rparr>
          else c)"

subsection \<open>Reconnection\<close>

text \<open>\<^verbatim>\<open>handleUnexpectedDisconnect()\<close>.\<close>

definition handleUnexpectedDisconnect :: "ConnectionManager \<Rightarrow> ConnectionManager" where
  "handleUnexpectedDisconnect c =
     (if reconnectAttempts c \<ge> maxReconnectAttempts (config_cm c)
      then c\<lparr>connectionState := FAILED\<rparr>
      else
        (case setTimeout ReconnectTick
                (c\<lparr>connectionState := RECONNECTING,
                   reconnectAttempts := reconnectAttempts c + 1\<rparr>) of
           (h, c') \<Rightarrow> c'\<lparr>reconnectTimer := Some h\<rparr>))"

text \<open>
  A call of \<^verbatim>\<open>resolve\<close> or \<^verbatim>\<open>reject\<close> of the promise \<open>k\<close> of a connect call.
  Only the first call settles the promise.  When the reconnect callback awaits the
  promise, a rejection continues in its \<^verbatim>\<open>catch\<close> block, which calls
  \<^verbatim>\<open>handleUnexpectedDisconnect\<close>; in each place of the source the call of
  \<^verbatim>\<open>reject\<close> is the last statement, so the continuation runs on the state the
  call leaves.
\<close>

definition reject_connect :: "nat \<Rightarrow> conn_error \<Rightarrow> ConnectionManager \<Rightarrow> ConnectionManager" where
  "reject_connect k e c =
     (let first = (k \<notin> fst ` set (connect_settled c));
          c1 = c\<lparr>connect_settled := connect_settled c @ [(k, Inl e)]\<rparr>
      in if first \<and> k \<in> set (reconnect_awaits c) then handleUnexpectedDisconnect c1 else c1)"

definition resolve_connect :: "nat \<Rightarrow> nat \<Rightarrow> ConnectionManager \<Rightarrow> ConnectionManager" where
  "resolve_connect k s c = c\<lparr>connect_settled := connect_settled c @ [(k, Inr s)]\<rparr>"

subsection \<open>disconnect and connect\<close>

text \<open>The loop of \<^verbatim>\<open>disconnect\<close> over the pending entries.\<close>

fun reject_all :: "(string \<times> nat) list \<Rightarrow> ConnectionManager \<Rightarrow> ConnectionManager" where
  "reject_all [] c = c"
| "reject_all ((mid, timer) # ps) c =
     reject_all ps (settle_msg mid (Inl ConnectionClosed) (clearTimeout timer c))"

definition disconnect :: "ConnectionManager \<Rightarrow> ConnectionManager" where
  "disconnect c =
     (let c1 = (case reconnectTimer c of
                  None \<Rightarrow> c
                | Some h \<Rightarrow> (clearTimeout h c)\<lparr>reconnectTimer := None\<rparr>);
          c2 = (reject_all (pendingMessages c1) c1)\<lparr>pendingMessages := []\<rparr>;
          c3 = (case currentConnection c2 of
                  None \<Rightarrow> c2
                | Some s \<Rightarrow>
                    (if ready_state_of c2 s = WS_OPEN then ws_close s c2 else c2)
                      \<lparr>currentConnection := None\<rparr>)
      in c3\<lparr>connectionState := DISCONNECTED, currentPort_cm := None, reconnectAttempts := 0\<rparr>)"

text \<open>Whether \<^verbatim>\<open>new WebSocket(url)\<close> returns a socket or throws.\<close>

datatype ctor_outcome = CtorOk | CtorThrows

text \<open>What a call of \<^verbatim>\<open>connect\<close> returns: the live socket at once, or a promise
  still to be settled.\<close>

datatype connect_result = Live nat | Promise nat

text \<open>\<^verbatim>\<open>connect(port)\<close> up to the return of its promise.  \<open>from_reconnect\<close> tells
  that the caller is the reconnect callback, which awaits the promise.\<close>

definition connect ::
  "nat \<Rightarrow> ctor_outcome \<Rightarrow> bool \<Rightarrow> ConnectionManager \<Rightarrow> connect_result \<times> ConnectionManager" where
  "connect p ctor from_reconnect c =
     (case (if isConnected c \<and> currentPort_cm c = Some p then currentConnection c else None) of
        Some s \<Rightarrow> (Live s, c)
      | None \<Rightarrow>
          (let c1 = (disconnect c)\<lparr>currentPort_cm := Some p, connectionState := CONNECTING\<rparr>;
               k = next_promise c1;
               c2 = c1\<lparr>next_promise := Suc k,
                      reconnect_awaits :=
                        (if from_reconnect then reconnect_awaits c1 @ [k]
                         else reconnect_awaits c1)\<rparr>
           in case setTimeout (ConnectTimeout k) c2 of
                (h, c3) \<Rightarrow>
                  (case ctor of
                     CtorOk \<Rightarrow>
                       (Promise k,
                        c3\<lparr>sockets := (sockets c3)(next_sock c3 \<mapsto>
                               \<lparr>readyState = WS_CONNECTING, timeout_handle = h,
                                promise_id = k\<rparr>),
                           next_sock := Suc (next_sock c3),
                           currentConnection := Some (next_sock c3)\<rparr>)
                   | CtorThrows \<Rightarrow>
                       (Promise k,
                        reject_connect k CreateFailed
                          ((clearTimeout h c3)\<lparr>connectionState := FAILED\<rparr>)))))"

subsection \<open>Message handlers\<close>

definition handlers_of :: "ConnectionManager \<Rightarrow> string \<Rightarrow> msg_handler list option" where
  "handlers_of c ty = map_of (messageHandlers c) ty"

definition addMessageHandler :: "string \<Rightarrow> msg_handler \<Rightarrow> ConnectionManager \<Rightarrow> ConnectionManager" where
  "addMessageHandler ty h c =
     (case handlers_of c ty of
        None \<Rightarrow> c\<lparr>messageHandlers := messageHandlers c @ [(ty, [h])]\<rparr>
      | Some hs \<Rightarrow>
          c\<lparr>messageHandlers :=
              map (\<lambda>e. if fst e = ty then (ty, if h \<in> set hs then hs else hs @ [h]) else e)
                (messageHandlers c)\<rparr>)"

definition removeMessageHandler ::
  "string \<Rightarrow> msg_handler \<Rightarrow> ConnectionManager \<Rightarrow> ConnectionManager" where
  "removeMessageHandler ty h c =
     (case handlers_of c ty of
        None \<Rightarrow> c
      | Some hs \<Rightarrow>
          if removeAll h hs = []
          then c\<lparr>messageHandlers := filter (\<lambda>e. fst e \<noteq> ty) (messageHandlers c)\<rparr>
          else c\<lparr>messageHandlers :=
                  map (\<lambda>e. if fst e = ty then (ty, removeAll h hs) else e) (messageHandlers c)\<rparr>)"

text \<open>\<^verbatim>\<open>removeAllMessageHandlers(type?)\<close>: an absent or empty type clears the map.\<close>

definition removeAllMessageHandlers :: "string option \<Rightarrow> ConnectionManager \<Rightarrow> ConnectionManager" where
  "removeAllMessageHandlers ty c =
     (case ty of
        None \<Rightarrow> c\<lparr>messageHandlers := []\<rparr>
      | Some t \<Rightarrow>
          if t = [] then c\<lparr>messageHandlers := []\<rparr>
          else c\<lparr>messageHandlers := filter (\<lambda>e. fst e \<noteq> t) (messageHandlers c)\<rparr>)"

definition destroy :: "ConnectionManager \<Rightarrow> ConnectionManager" where
  "destroy c = removeAllMessageHandlers None (disconnect c)"

text \<open>\<^verbatim>\<open>pendingMessages.set\<close> and \<^verbatim>\<open>pendingMessages.delete\<close>.\<close>

definition pending_set :: "string \<Rightarrow> nat \<Rightarrow> (string \<times> nat) list \<Rightarrow> (string \<times> nat) list" where
  "pending_set mid h ps =
     (if mid \<in> fst ` set ps then map (\<lambda>e. if fst e = mid then (mid, h) else e) ps
      else ps @ [(mid, h)])"

definition pending_delete :: "string \<Rightarrow> (string \<times> nat) list \<Rightarrow> (string \<times> nat) list" where
  "pending_delete mid ps = filter (\<lambda>e. fst e \<noteq> mid) ps"

text \<open>\<^verbatim>\<open>waitForMessage(type, timeout)\<close> up to the return of its promise; \<open>mid\<close> is
  the message id the call generates from the type, the clock and a random number.  The
  promise is named by \<open>mid\<close>.\<close>

definition waitForMessage :: "string \<Rightarrow> string \<Rightarrow> ConnectionManager \<Rightarrow> ConnectionManager" where
  "waitForMessage ty mid c =
     (case setTimeout (MessageTimeout mid ty) c of
        (timer, c1) \<Rightarrow>
          addMessageHandler ty (OneShot mid ty)
            (c1\<lparr>pendingMessages := pending_set mid timer (pendingMessages c1)\<rparr>))"

text \<open>One call of a handler on a message (a throwing handler is caught by
  \<^verbatim>\<open>handleMessage\<close> and changes nothing).\<close>

definition run_handler :: "message \<Rightarrow> msg_handler \<Rightarrow> ConnectionManager \<Rightarrow> ConnectionManager" where
  "run_handler msg h c =
     (case h of
        Persistent k \<Rightarrow> c
      | OneShot mid ty \<Rightarrow>
          if type_m msg = Some ty then
            (case map_of (pendingMessages c) mid of
               None \<Rightarrow> c
             | Some timer \<Rightarrow>
                 settle_msg mid (Inr msg)
                   (removeMessageHandler ty h
                     ((clearTimeout timer c)
                        \<lparr>pendingMessages := pending_delete mid (pendingMessages c)\<rparr>)))
          else c)"

text \<open>\<^verbatim>\<open>handleMessage(message)\<close>.  The loop runs over the handler set of the type;
  the only handler the loop itself removes is the one-shot handler being run, so the
  loop visits the handlers that were in the set when it started.\<close>

definition handleMessage :: "message \<Rightarrow> ConnectionManager \<Rightarrow> ConnectionManager" where
  "handleMessage msg c =
     (case type_m msg of
        None \<Rightarrow> c
      | Some ty \<Rightarrow>
          if ty = [] then c
          else
            (case handlers_of c ty of
               None \<Rightarrow> c
             | Some hs \<Rightarrow> fold (run_handler msg) hs c))"

subsection \<open>Timer callbacks and socket events\<close>

text \<open>The armed timer \<open>h\<close> fires: it leaves the armed list and its callback runs.  A
  handle that is not armed does not fire.  \<open>ctor\<close> is what the socket constructor does
  if the callback reaches it.  In the reconnect callback, \<^verbatim>\<open>this.currentPort\<close> is
  falsy when it is \<^verbatim>\<open>null\<close> or \<open>0\<close>.\<close>

definition fire :: "nat \<Rightarrow> ctor_outcome \<Rightarrow> ConnectionManager \<Rightarrow> ConnectionManager" where
  "fire h ctor c =
     (case map_of (armed c) h of
        None \<Rightarrow> c
      | Some a \<Rightarrow>
          (let c1 = clearTimeout h c
           in case a of
                ConnectTimeout k \<Rightarrow>
                  reject_connect k ConnectTimedOut
                    ((case currentConnection c1 of
                        None \<Rightarrow> c1
                      | Some s \<Rightarrow> ws_close s c1)\<lparr>connectionState := FAILED\<rparr>)
              | MessageTimeout mid ty \<Rightarrow>
                  settle_msg mid (Inl (MessageTimedOut ty))
                    (c1\<lparr>pendingMessages := pending_delete mid (pendingMessages c1)\<rparr>)
              | ReconnectTick \<Rightarrow>
                  (case currentPort_cm c1 of
                     None \<Rightarrow> c1
                   | Some p \<Rightarrow>
                       if p \<noteq> 0 \<and> connectionState c1 = RECONNECTING
                       then snd (connect p ctor True c1)
                       else c1)))"

text \<open>The open, error and close events of socket \<open>s\<close> with the callbacks
  \<^verbatim>\<open>connect\<close> installed on it.  A socket opens only while connecting and closes only
  once.\<close>

definition sock_open :: "nat \<Rightarrow> ConnectionManager \<Rightarrow> ConnectionManager" where
  "sock_open s c =
     (case sockets c s of
        None \<Rightarrow> c
      | Some i \<Rightarrow>
          if readyState i \<noteq> WS_CONNECTING then c
          else
            resolve_connect (promise_id i) s
              ((clearTimeout (timeout_handle i) c)
                 \<lparr>sockets := (sockets c)(s \<mapsto> i\<lparr>readyState := WS_OPEN\<rparr>),
                  connectionState := CONNECTED, reconnectAttempts := 0\<rparr>))"

definition sock_error :: "nat \<Rightarrow> ConnectionManager \<Rightarrow> ConnectionManager" where
  "sock_error s c =
     (case sockets c s of
        None \<Rightarrow> c
      | Some i \<Rightarrow>
          reject_connect (promise_id i) ConnectFailed
            ((clearTimeout (timeout_handle i) c)\<lparr>connectionState := FAILED\<rparr>))"

definition sock_close :: "nat \<Rightarrow> ConnectionManager \<Rightarrow> ConnectionManager" where
  "sock_close s c =
     (case sockets c s of
        None \<Rightarrow> c
      | Some i \<Rightarrow>
          if readyState i = WS_CLOSED then c
          else
            (let c1 = (clearTimeout (timeout_handle i) c)
                        \<lparr>sockets := (sockets c)(s \<mapsto> i\<lparr>readyState := WS_CLOSED\<rparr>)\<rparr>
             in if connectionState c1 = CONNECTED then handleUnexpectedDisconnect c1
                else c1\<lparr>connectionState := DISCONNECTED\<rparr>))"

subsection \<open>Runs\<close>

text \<open>What can happen to a manager: calls of its public methods, a timer firing, a
  socket event, an inbound message.\<close>

datatype event =
    Connect nat ctor_outcome
  | Disconnect
  | Destroy
  | WaitForMessage string string
  | AddMessageHandler string nat
  | RemoveMessageHandler string nat
  | RemoveAllMessageHandlers "string option"
  | TimerFires nat ctor_outcome
  | SockOpen nat
  | SockError nat
  | SockClose nat
  | Receive message

fun step :: "event \<Rightarrow> ConnectionManager \<Rightarrow> ConnectionManager" where
  "step (Connect p ctor) c = snd (connect p ctor False c)"
| "step Disconnect c = disconnect c"
| "step Destroy c = destroy c"
| "step (WaitForMessage ty mid) c = waitForMessage ty mid c"
| "step (AddMessageHandler ty k) c = addMessageHandler ty (Persistent k) c"
| "step (RemoveMessageHandler ty k) c = removeMessageHandler ty (Persistent k) c"
| "step (RemoveAllMessageHandlers ty) c = removeAllMessageHandlers ty c"
| "step (TimerFires h ctor) c = fire h ctor c"
| "step (SockOpen s) c = sock_open s c"
| "step (SockError s) c = sock_error s c"
| "step (SockClose s) c = sock_close s c"
| "step (Receive msg) c = handleMessage msg c"

fun run :: "event list \<Rightarrow> ConnectionManager \<Rightarrow> ConnectionManager" where
  "run [] c = c"
| "run (e # es) c = run es (step e c)"





subsection \<open>A reconnect episode in which every attempt fails\<close>

text \<open>The configuration of the repository's reconnect-limit test, and the states of an
  episode: the manager connects to port 9999, the socket opens and then closes
  unexpectedly; in each round after that the pending reconnect timer fires and the
  socket constructor throws.\<close>

definition limited_config :: ConnectionConfig where
  "limited_config = DEFAULT_CONNECTION_CONFIG\<lparr>maxReconnectAttempts := 2, reconnectInterval := 100\<rparr>"

fun failing_reconnects :: "nat \<Rightarrow> ConnectionManager" where
  "failing_reconnects 0 =
     run [Connect 9999 CtorOk, SockOpen 0, SockClose 0] (new_ConnectionManager limited_config)"
| "failing_reconnects (Suc n) =
     (case reconnectTimer (failing_reconnects n) of
        None \<Rightarrow> failing_reconnects n
      | Some h \<Rightarrow> step (TimerFires h CtorThrows) (failing_reconnects n))"

definition failed_attempts :: "ConnectionManager \<Rightarrow> nat" where
  "failed_attempts c = length (filter (\<lambda>e. snd e = Inl CreateFailed) (connect_settled c))"

subsection \<open>Invariant of the pending requests\<close>

definition is_message_timeout :: "timer_action \<Rightarrow> bool" where
  "is_message_timeout a = (case a of MessageTimeout mid ty \<Rightarrow> True | _ \<Rightarrow> False)"



text \<open>A change that touches neither the pending map nor the settlements and arms no
  message timer.\<close>

definition neutral :: "ConnectionManager \<Rightarrow> ConnectionManager \<Rightarrow> bool" where
  "neutral c c' \<longleftrightarrow>
     pendingMessages c' = pendingMessages c \<and> settled c' = settled c \<and>
     list_all (\<lambda>t. t \<in> set (armed c) \<or> \<not> is_message_timeout (snd t)) (armed c')"


text \<open>What every state of the failing reconnect episode satisfies.\<close>

definition episode_inv :: "nat \<Rightarrow> ConnectionManager \<Rightarrow> bool" where
  "episode_inv n c \<longleftrightarrow>
     connectionState c = RECONNECTING \<and> reconnectAttempts c = 1 \<and>
     currentPort_cm c = Some 9999 \<and> maxReconnectAttempts (config_cm c) = 2 \<and>
     pendingMessages c = [] \<and>
     (case reconnectTimer c of None \<Rightarrow> False | Some h \<Rightarrow> armed c = [(h, ReconnectTick)]) \<and>
     list_all (\<lambda>e. fst e < next_promise c) (connect_settled c) \<and>
     failed_attempts c = n"

text \<open>A concrete run: two requests, a reply to the first, the timeout of the second,
  a late second reply, a third request.\<close>

definition reply_a :: message where
  "reply_a = \<lparr>type_m = Some ''a'', restarted_m = None, data_m = None\<rparr>"


section \<open>Properties of the HealthChecker\<close>

lemma probe_result_throws:
  "probe_throws out \<Longrightarrow> \<exists>e. probe_result p t out = Inl e"
  by (auto simp: probe_throws_def probe_result_def
      split: fetch_outcome.splits body_outcome.splits)


lemma probe_result_non_success:
  "non_success_status out \<Longrightarrow> \<exists>r. probe_result p t out = Inr r \<and> \<not> healthy r"
  by (auto simp: non_success_status_def probe_result_def split: fetch_outcome.splits)

lemma getHealthStatus_total:
  "\<exists>r. fst (getHealthStatus p t0 t1 t2 out hc) = Inr r"
  by (auto simp: getHealthStatus_def split: option.splits sum.splits)

lemma getHealthStatus_miss_failure:
  assumes "\<not> cache_fresh hc p t0" and "probe_throws out \<or> non_success_status out"
  shows "\<exists>r. fst (getHealthStatus p t0 t1 t2 out hc) = Inr r \<and> \<not> healthy r"
proof -
  from assms(2) consider (thr) e where "probe_result p t1 out = Inl e"
    | (ret) r where "probe_result p t1 out = Inr r" "\<not> healthy r"
    using probe_result_throws probe_result_non_success by blast
  then show ?thesis
  proof cases
    case thr
    with assms(1) show ?thesis
      by (auto simp: getHealthStatus_def thrown_result_def)
  next
    case ret
    with assms(1) show ?thesis
      by (auto simp: getHealthStatus_def)
  qed
qed

text \<open>
  Claim C10.  \<^verbatim>\<open>checkServiceHealth\<close> never throws: for every port, clock, cache content
  and probe outcome it returns a boolean; and when the cache holds no fresh entry, every
  failure of the network call or of the parsing of its body (and every non-2xx response)
  gives \<open>False\<close>.
\<close>

theorem checkServiceHealth_never_throws:
  "(\<exists>b. fst (checkServiceHealth p t0 t1 t2 out hc) = Inr b) \<and>
   (\<not> cache_fresh hc p t0 \<and> (probe_throws out \<or> non_success_status out)
      \<longrightarrow> fst (checkServiceHealth p t0 t1 t2 out hc) = Inr False)"
proof
  show "\<exists>b. fst (checkServiceHealth p t0 t1 t2 out hc) = Inr b"
    by (auto simp: checkServiceHealth_def split: prod.splits sum.splits)
next
  show "\<not> cache_fresh hc p t0 \<and> (probe_throws out \<or> non_success_status out)
      \<longrightarrow> fst (checkServiceHealth p t0 t1 t2 out hc) = Inr False"
  proof
    assume h: "\<not> cache_fresh hc p t0 \<and> (probe_throws out \<or> non_success_status out)"
    then obtain r where "fst (getHealthStatus p t0 t1 t2 out hc) = Inr r" "\<not> healthy r"
      using getHealthStatus_miss_failure by blast
    then show "fst (checkServiceHealth p t0 t1 t2 out hc) = Inr False"
      by (auto simp: checkServiceHealth_def split: prod.splits sum.splits)
  qed
qed

theorem checkServiceHealth_never_throws_witness:
  "\<not> cache_fresh new_HealthChecker 9999 1000 \<and>
   probe_throws (FetchRejects ''Failed to fetch'') \<and>
   fst (checkServiceHealth 9999 1000 1005 1005 (FetchRejects ''Failed to fetch'')
          new_HealthChecker) = Inr False"
  using checkServiceHealth_never_throws
    [of 9999 1000 1005 1005 "FetchRejects ''Failed to fetch''" new_HealthChecker]
  by (simp add: cache_fresh_def new_HealthChecker_def probe_throws_def)










section \<open>Properties of the RestartStateMachine\<close>

text \<open>
  Claim C1.  In every state other than Idle, \<^verbatim>\<open>restart\<close> rejects at once with the
  restart-in-progress error, and the machine (its state, the context of the restart in
  progress, the persisted record and every other field) is what it was before the call.
\<close>

theorem restart_rejects_when_active:
  assumes "state m \<noteq> IDLE"
  shows "restart cur tgt now rid m = (Inl (RestartInProgress (state m)), m)"
  using assms by (simp add: restart_def)

theorem restart_rejects_when_active_witness:
  "state verifying_machine \<noteq> IDLE \<and>
   restart 9999 (Some 8888) 5000 ''restart_5000_k3x'' verifying_machine =
     (Inl (RestartInProgress VERIFYING), verifying_machine)"
  using restart_rejects_when_active
    [of verifying_machine 9999 "Some 8888" 5000 "''restart_5000_k3x''"]
  by (simp add: verifying_machine_def new_RestartStateMachine_def)



lemma doTransition_catch_state:
  "newState \<noteq> FAILED_R \<Longrightarrow> state (doTransition_catch newState e m) = FAILED_R"
  by (simp add: doTransition_catch_def Let_def persistState_def notifyListeners_def
      split: option.splits)

lemma doTransition_catch_error:
  "context_m m = Some c \<Longrightarrow>
   context_m (doTransition_catch newState e m) = Some (c\<lparr>error_ctx := Some e\<rparr>)"
  by (simp add: doTransition_catch_def Let_def persistState_def notifyListeners_def
      split: option.splits)

text \<open>
  Claim C3, as stated, fails.  The response the server sends carries \<^verbatim>\<open>restarted\<close>
  under \<^verbatim>\<open>data\<close> and has no top-level \<^verbatim>\<open>restarted\<close>; with a healthy probe the
  handler does not throw but asks for the transition to Completed.  A response with a
  top-level \<^verbatim>\<open>restarted: true\<close> and no \<^verbatim>\<open>data\<close> makes it throw although the
  probe is healthy.
\<close>

theorem handleVerifying_top_level_counterexample:
  "handleVerifying (Inr (Some server_response)) (Inr True) verifying_machine =
     Inr (verifying_machine\<lparr>awaiting := [COMPLETED]\<rparr>) \<and>
   restarted_m server_response = None \<and>
   handleVerifying (Inr (Some top_level_response)) (Inr True) verifying_machine =
     Inl (VerificationFailed HealthOrRestartCheckFailed) \<and>
   restarted_m top_level_response = Some True"
  by (simp add: handleVerifying_def verifying_machine_def server_response_def
      top_level_response_def example_context_def new_RestartStateMachine_def
      data_restarted_def transition_def or_else_nat_def)

text \<open>
  Claim C3, amended.  With a context present, \<^verbatim>\<open>handleVerifying\<close> asks for the
  transition to Completed (it calls \<^verbatim>\<open>transition(COMPLETED)\<close>, after at most an update
  of the stored socket address) exactly when a verification response was received whose
  \<^verbatim>\<open>data.restarted\<close> is truthy and the health check returned true.  In every other
  case (the wait rejected or gave nothing, \<^verbatim>\<open>data.restarted\<close> missing or false, the
  health check false or rejected) it throws a verification failure, and the catch block
  of \<^verbatim>\<open>doTransition\<close> records that error in the context and sets the state to Failed.
\<close>

theorem handleVerifying_outcome:
  assumes "context_m m = Some c"
  shows "(verification_confirmed waited health \<longrightarrow>
            (\<exists>m0. handleVerifying waited health m = Inr (transition COMPLETED m0) \<and>
                  m0\<lparr>ws_url_port := ws_url_port m\<rparr> = m)) \<and>
         (\<not> verification_confirmed waited health \<longrightarrow>
            (\<exists>e. handleVerifying waited health m = Inl (VerificationFailed e) \<and>
                 state (doTransition_catch VERIFYING (VerificationFailed e) m) = FAILED_R \<and>
                 context_m (doTransition_catch VERIFYING (VerificationFailed e) m) =
                   Some (c\<lparr>error_ctx := Some (VerificationFailed e)\<rparr>)))"
proof (intro conjI impI)
  assume "verification_confirmed waited health"
  then obtain response where r: "waited = Inr (Some response)" "data_restarted response"
    "health = Inr True"
    by (auto simp: verification_confirmed_def split: sum.splits option.splits)
  show "\<exists>m0. handleVerifying waited health m = Inr (transition COMPLETED m0) \<and>
                  m0\<lparr>ws_url_port := ws_url_port m\<rparr> = m"
  proof (cases "or_else_nat (targetPort c) 0 \<noteq> 0 \<and> targetPort c \<noteq> Some (currentPort c)")
    case True
    with r assms show ?thesis
      by (intro exI[of _ "m\<lparr>ws_url_port := targetPort c\<rparr>"]) (simp add: handleVerifying_def)
  next
    case False
    with r assms show ?thesis
      by (intro exI[of _ m]) (auto simp add: handleVerifying_def)
  qed
next
  assume n: "\<not> verification_confirmed waited health"
  then have "\<exists>e. handleVerifying waited health m = Inl (VerificationFailed e)"
    using assms
    by (auto simp: verification_confirmed_def handleVerifying_def
        split: sum.splits option.splits)
  then show "\<exists>e. handleVerifying waited health m = Inl (VerificationFailed e) \<and>
                 state (doTransition_catch VERIFYING (VerificationFailed e) m) = FAILED_R \<and>
                 context_m (doTransition_catch VERIFYING (VerificationFailed e) m) =
                   Some (c\<lparr>error_ctx := Some (VerificationFailed e)\<rparr>)"
    using assms doTransition_catch_state[of VERIFYING] doTransition_catch_error[OF assms]
    by auto
qed

theorem handleVerifying_outcome_witness:
  "context_m verifying_machine = Some example_context \<and>
   verification_confirmed (Inr (Some server_response)) (Inr True) \<and>
   \<not> verification_confirmed (Inr (Some server_response)) (Inr False) \<and>
   (\<exists>m0. handleVerifying (Inr (Some server_response)) (Inr True) verifying_machine =
      Inr (transition COMPLETED m0)) \<and>
   (\<exists>e. handleVerifying (Inr (Some server_response)) (Inr False) verifying_machine =
      Inl (VerificationFailed e))"
  using handleVerifying_outcome
    [of verifying_machine example_context "Inr (Some server_response)" "Inr True"]
    handleVerifying_outcome
    [of verifying_machine example_context "Inr (Some server_response)" "Inr False"]
  by (auto simp: verifying_machine_def new_RestartStateMachine_def verification_confirmed_def
      server_response_def data_restarted_def)

section \<open>Properties of the ConnectionManager\<close>

lemmas cm_defs = connect_def disconnect_def isConnected_def ready_state_of_def setTimeout_def
  clearTimeout_def reject_connect_def resolve_connect_def handleUnexpectedDisconnect_def
  ws_close_def sock_open_def sock_close_def sock_error_def fire_def new_ConnectionManager_def
  waitForMessage_def addMessageHandler_def removeMessageHandler_def handlers_of_def
  pending_set_def pending_delete_def settle_msg_def run_handler_def handleMessage_def

text \<open>
  Claim C9.  When the manager is connected (state Connected, socket open) to port \<open>p\<close>,
  \<^verbatim>\<open>connect(p)\<close> returns the current socket and leaves the whole manager and its
  environment as they were: no socket is created, and state and reconnect counter keep
  their values.
\<close>

theorem connect_idempotent:
  assumes "isConnected c" and "currentPort_cm c = Some p"
  shows "\<exists>s. currentConnection c = Some s \<and> ready_state_of c s = WS_OPEN \<and>
             connect p ctor from_reconnect c = (Live s, c)"
  using assms by (auto simp: connect_def isConnected_def split: option.splits)

theorem connect_idempotent_witness:
  "isConnected (run [Connect 9999 CtorOk, SockOpen 0]
      (new_ConnectionManager DEFAULT_CONNECTION_CONFIG)) \<and>
   currentPort_cm (run [Connect 9999 CtorOk, SockOpen 0]
      (new_ConnectionManager DEFAULT_CONNECTION_CONFIG)) = Some 9999 \<and>
   connect 9999 CtorOk False (run [Connect 9999 CtorOk, SockOpen 0]
      (new_ConnectionManager DEFAULT_CONNECTION_CONFIG)) =
     (Live 0, run [Connect 9999 CtorOk, SockOpen 0]
      (new_ConnectionManager DEFAULT_CONNECTION_CONFIG))"
  using connect_idempotent
    [of "run [Connect 9999 CtorOk, SockOpen 0]
      (new_ConnectionManager DEFAULT_CONNECTION_CONFIG)" 9999 CtorOk False]
  by (simp add: cm_defs Let_def)

subsection \<open>One-shot handlers\<close>

text \<open>On the match path the one-shot handler and the timer are both removed.\<close>

lemma match_removes_handler:
  "messageHandlers
     (run [WaitForMessage ''a'' ''a_1_0.25'', Receive reply_a]
          (new_ConnectionManager DEFAULT_CONNECTION_CONFIG)) = [] \<and>
   armed
     (run [WaitForMessage ''a'' ''a_1_0.25'', Receive reply_a]
          (new_ConnectionManager DEFAULT_CONNECTION_CONFIG)) = []"
  by (simp add: cm_defs Let_def reply_a_def)

text \<open>
  Claim C2 at the input of the repository's timeout test: \<^verbatim>\<open>waitForMessage\<close> for the
  type \<^verbatim>\<open>nonexistent\<close>, no message, the timer fires.  The pending entry and the
  timer are gone and the promise is rejected with the timeout, but the one-shot handler
  is still in the handler set of the type.
\<close>

theorem waitForMessage_timeout_leaves_handler:
  "messageHandlers
     (run [WaitForMessage ''nonexistent'' ''nonexistent_1_0.5'', TimerFires 0 CtorOk]
          (new_ConnectionManager DEFAULT_CONNECTION_CONFIG)) =
     [(''nonexistent'', [OneShot ''nonexistent_1_0.5'' ''nonexistent''])] \<and>
   pendingMessages
     (run [WaitForMessage ''nonexistent'' ''nonexistent_1_0.5'', TimerFires 0 CtorOk]
          (new_ConnectionManager DEFAULT_CONNECTION_CONFIG)) = [] \<and>
   armed
     (run [WaitForMessage ''nonexistent'' ''nonexistent_1_0.5'', TimerFires 0 CtorOk]
          (new_ConnectionManager DEFAULT_CONNECTION_CONFIG)) = [] \<and>
   settled
     (run [WaitForMessage ''nonexistent'' ''nonexistent_1_0.5'', TimerFires 0 CtorOk]
          (new_ConnectionManager DEFAULT_CONNECTION_CONFIG)) =
     [(''nonexistent_1_0.5'', Inl (MessageTimedOut ''nonexistent''))]"
  by (simp add: cm_defs Let_def)

subsection \<open>Reconnection\<close>

text \<open>What \<^verbatim>\<open>handleUnexpectedDisconnect\<close> does by itself: at the ceiling it sets
  Failed and arms nothing; below it the counter stays within the ceiling.\<close>

lemma handleUnexpectedDisconnect_at_ceiling:
  "reconnectAttempts c \<ge> maxReconnectAttempts (config_cm c) \<Longrightarrow>
   handleUnexpectedDisconnect c = c\<lparr>connectionState := FAILED\<rparr>"
  by (simp add: handleUnexpectedDisconnect_def)

lemma handleUnexpectedDisconnect_bounded:
  "reconnectAttempts c \<le> maxReconnectAttempts (config_cm c) \<Longrightarrow>
   reconnectAttempts (handleUnexpectedDisconnect c)
     \<le> maxReconnectAttempts (config_cm (handleUnexpectedDisconnect c))"
  by (simp add: handleUnexpectedDisconnect_def setTimeout_def)

lemma episode_inv_start: "episode_inv 0 (failing_reconnects 0)"
  by (simp add: episode_inv_def cm_defs Let_def limited_config_def
      DEFAULT_CONNECTION_CONFIG_def failed_attempts_def)

lemma episode_inv_step:
  assumes "episode_inv n c" and "reconnectTimer c = Some h"
  shows "episode_inv (Suc n) (fire h CtorThrows c)"
proof -
  from assms have a: "armed c = [(h, ReconnectTick)]"
    by (simp add: episode_inv_def)
  have fresh: "next_promise c \<notin> fst ` set (connect_settled c)"
    using assms(1) by (auto simp: episode_inv_def list_all_iff)
  have mono: "list_all (\<lambda>e. fst e < Suc (next_promise c)) (connect_settled c)"
    using assms(1) by (auto simp: episode_inv_def list_all_iff less_Suc_eq)
  show ?thesis
    using assms a fresh mono
    by (simp add: episode_inv_def cm_defs Let_def failed_attempts_def split: option.splits)
qed

lemma episode_inv_all: "episode_inv n (failing_reconnects n)"
proof (induction n)
  case 0
  show ?case by (rule episode_inv_start)
next
  case (Suc n)
  then obtain h where h: "reconnectTimer (failing_reconnects n) = Some h"
    by (auto simp: episode_inv_def split: option.splits)
  with Suc show ?case
    by (simp add: episode_inv_step)
qed

text \<open>When a reconnect attempt ends with the socket's error event followed by its close
  event, the pending reconnect timer finds the state Disconnected and does nothing: the
  episode ends in Disconnected with the counter at 1, below the ceiling of 2.\<close>

lemma error_then_close_stops_disconnected:
  "connectionState
     (run [Connect 9999 CtorOk, SockOpen 0, SockClose 0, TimerFires 1 CtorOk,
           SockError 1, SockClose 1, TimerFires 3 CtorOk]
        (new_ConnectionManager limited_config)) = DISCONNECTED \<and>
   reconnectAttempts
     (run [Connect 9999 CtorOk, SockOpen 0, SockClose 0, TimerFires 1 CtorOk,
           SockError 1, SockClose 1, TimerFires 3 CtorOk]
        (new_ConnectionManager limited_config)) = 1 \<and>
   armed
     (run [Connect 9999 CtorOk, SockOpen 0, SockClose 0, TimerFires 1 CtorOk,
           SockError 1, SockClose 1, TimerFires 3 CtorOk]
        (new_ConnectionManager limited_config)) = []"
  by (simp add: cm_defs Let_def limited_config_def DEFAULT_CONNECTION_CONFIG_def)

text \<open>
  Claim C4 at a failing episode.  With a ceiling of 2, after the unexpected close and
  any number \<open>n\<close> of reconnect attempts in which the socket constructor throws, the
  manager is still Reconnecting with the counter at 1 and the next reconnect timer
  armed: \<^verbatim>\<open>connect\<close> calls \<^verbatim>\<open>disconnect\<close>, which sets the counter back to 0 before
  each attempt, so the counter never reaches the ceiling, the state never becomes
  Failed, and the number of failed attempts \<open>n\<close> has no bound.
\<close>

theorem reconnect_attempts_unbounded:
  "connectionState (failing_reconnects n) = RECONNECTING \<and>
   reconnectAttempts (failing_reconnects n) = 1 \<and>
   maxReconnectAttempts (config_cm (failing_reconnects n)) = 2 \<and>
   failed_attempts (failing_reconnects n) = n \<and>
   (case reconnectTimer (failing_reconnects n) of
      None \<Rightarrow> False
    | Some h \<Rightarrow> armed (failing_reconnects n) = [(h, ReconnectTick)])"
  using episode_inv_all [of n] by (simp add: episode_inv_def)

subsection \<open>Pending requests\<close>

lemma neutral_refl: "neutral c c"
  by (simp add: neutral_def list_all_iff)

lemma neutral_trans: "neutral a b \<Longrightarrow> neutral b c \<Longrightarrow> neutral a c"
  by (auto simp: neutral_def list_all_iff)



lemma neutral_setTimeout:
  "\<not> is_message_timeout a \<Longrightarrow> neutral c (snd (setTimeout a c))"
  by (simp add: neutral_def setTimeout_def list_all_iff)

lemma neutral_ws_close: "neutral c (ws_close s c)"
  by (simp add: neutral_def ws_close_def list_all_iff split: option.splits)

lemma neutral_hud: "neutral c (handleUnexpectedDisconnect c)"
  by (simp add: neutral_def handleUnexpectedDisconnect_def setTimeout_def list_all_iff
      is_message_timeout_def)

lemma neutral_reject_connect: "neutral c (reject_connect k e c)"
  by (simp add: neutral_def reject_connect_def Let_def handleUnexpectedDisconnect_def
      setTimeout_def list_all_iff is_message_timeout_def)

lemma neutral_resolve_connect: "neutral c (resolve_connect k s c)"
  by (simp add: neutral_def resolve_connect_def list_all_iff)




























end
